theory Spec2Isabelle
  imports Main "HOL-Library.Word" "HOL-Library.Signed_Division"
begin

section \<open>The stopwatch of stopwatch.h\<close>

text \<open>
  The header defines the clock adapter \<open>TimerBaseChrono<clock_, resolution>\<close> and the timer
  \<open>basic_stopwatch<T>\<close>, which inherits from its clock adapter. The two instantiations are
  \<open>Stopwatch\<close> (stopwatchmsec.h) and \<open>Stopwatchmicro\<close> (stopwatchmicro.h).

  What the program takes from its environment is made explicit:
  \<^item> a time point is the count of clock periods since the epoch, a signed 64-bit count in
    \<open>std::chrono\<close>; \<open>time_point::min()\<close> is the least 64-bit value. Counts are integers
    here, and \<open>int64\<close> says that one is a 64-bit count. Arithmetic on counts has the
    wrap-around to 64 bits written out (\<open>wrap64\<close>): signed overflow is undefined in C++,
    the compiled code wraps, and every theorem about the value that \<open>GetMs\<close> returns
    assumes that nothing overflows;
  \<^item> \<open>clock_::now()\<close> is read from the world: the successive readings are a sequence, and a
    counter says how many have been consumed;
  \<^item> a \<open>char const*\<close> is a \<open>string option\<close>: \<open>None\<close> is \<open>nullptr\<close>;
  \<^item> a \<open>std::ostream&\<close> is the number of a stream of the world; the world holds the
    characters written to each stream so far. \<open>std::endl\<close> writes a line feed;
    \<open>std::flush\<close> writes nothing. The field width of a stream is zero (no padding) and
    writes do not fail. What \<open>operator<<(unsigned long)\<close> writes for a value is decided by
    the stream's formatting flags and locale, which belong to the caller and which the
    timer never changes: the world holds it for each stream (\<open>num_put\<close>);
  \<^item> \<open>unsigned long\<close> is a word whose width \<open>'w\<close> is the platform's;
  \<^item> \<open>duration_cast<resolution>\<close> multiplies the count by the numerator and divides it by
    the denominator of the ratio between the clock's period and the resolution's, truncating
    towards zero; the ratio is the policy's parameter.
\<close>

subsection \<open>The world: clock and output streams\<close>

type_synonym time_point = int

definition time_point_min :: time_point where
  "time_point_min = - (2 ^ 63)"

type_synonym ostream = nat

definition cout :: ostream where
  "cout = 0"

record world =
  now_seq :: "nat \<Rightarrow> time_point"
  now_cnt :: nat
  streams :: "ostream \<Rightarrow> string"
  num_put :: "ostream \<Rightarrow> nat \<Rightarrow> string"

definition int64 :: "int \<Rightarrow> bool" where
  "int64 x = (- (2 ^ 63) \<le> x \<and> x < 2 ^ 63)"

definition wrap64 :: "int \<Rightarrow> int" where
  "wrap64 x = (x + 2 ^ 63) mod 2 ^ 64 - 2 ^ 63"

definition clock_now :: "world \<Rightarrow> time_point \<times> world" where
  "clock_now w = (now_seq w (now_cnt w), w\<lparr>now_cnt := Suc (now_cnt w)\<rparr>)"

definition endl :: string where
  "endl = [CHR 0x0A]"

definition put :: "ostream \<Rightarrow> string \<Rightarrow> world \<Rightarrow> world" where
  "put log txt w = w\<lparr>streams := (streams w)(log := streams w log @ txt)\<rparr>"

text \<open>
  \<open>operator<<(unsigned long)\<close> on a stream in its default state: the decimal digits, most
  significant first. After \<open>std::hex\<close>: the hexadecimal digits, in lower case.
\<close>

fun put_ulong :: "nat \<Rightarrow> string" where
  "put_ulong n =
     (if n < 10 then [''0123456789'' ! n]
      else put_ulong (n div 10) @ [''0123456789'' ! (n mod 10)])"

declare put_ulong.simps [simp del]

fun put_ulong_hex :: "nat \<Rightarrow> string" where
  "put_ulong_hex n =
     (if n < 16 then [''0123456789abcdef'' ! n]
      else put_ulong_hex (n div 16) @ [''0123456789abcdef'' ! (n mod 16)])"

declare put_ulong_hex.simps [simp del]

subsection \<open>The clock policy\<close>

text \<open>
  The template arguments \<open>clock_\<close> and \<open>resolution\<close> decide one thing in the code: the
  conversion of \<open>duration_cast\<close>, computed in 64-bit counts. With a clock that counts
  nanoseconds, milliseconds divide by \<open>1000000\<close> and microseconds by \<open>1000\<close>.
\<close>

record policy =
  cf_num :: int
  cf_den :: int

definition valid_policy :: "policy \<Rightarrow> bool" where
  "valid_policy p = (0 < cf_num p \<and> 0 < cf_den p)"

definition duration_cast :: "policy \<Rightarrow> int \<Rightarrow> int" where
  "duration_cast p d = wrap64 (d * cf_num p) sdiv cf_den p"

definition Stopwatch :: policy where
  "Stopwatch = \<lparr>cf_num = 1, cf_den = 1000000\<rparr>"

definition Stopwatchmicro :: policy where
  "Stopwatchmicro = \<lparr>cf_num = 1, cf_den = 1000\<rparr>"

subsection \<open>TimerBaseChrono\<close>

record TimerBaseChrono =
  m_start :: time_point

definition TimerBaseChrono_Clear ::
  "'a TimerBaseChrono_scheme \<Rightarrow> 'a TimerBaseChrono_scheme" where
  "TimerBaseChrono_Clear t = t\<lparr>m_start := time_point_min\<rparr>"

definition TimerBaseChrono_IsStarted :: "'a TimerBaseChrono_scheme \<Rightarrow> bool" where
  "TimerBaseChrono_IsStarted t = (m_start t \<noteq> time_point_min)"

definition TimerBaseChrono_Start ::
  "'a TimerBaseChrono_scheme \<Rightarrow> world \<Rightarrow> 'a TimerBaseChrono_scheme \<times> world" where
  "TimerBaseChrono_Start t w = (case clock_now w of (n, w') \<Rightarrow> (t\<lparr>m_start := n\<rparr>, w'))"

definition GetMs ::
  "policy \<Rightarrow> 'a TimerBaseChrono_scheme \<Rightarrow> world
     \<Rightarrow> 'w::len word \<times> 'a TimerBaseChrono_scheme \<times> world" where
  "GetMs p t w =
     (if TimerBaseChrono_IsStarted t
      then (case clock_now w of
              (n, w') \<Rightarrow> (word_of_int (duration_cast p (wrap64 (n - m_start t))), t, w'))
      else (0, t, w))"

subsection \<open>basic_stopwatch\<close>

text \<open>
  \<open>tick_t\<close> is the record's type parameter; every operation below instantiates it with
  \<open>'w word\<close>, the model of \<open>unsigned long\<close>.
\<close>

record 'tick_t basic_stopwatch = TimerBaseChrono +
  m_activity :: "string option"
  m_lap :: 'tick_t
  m_log :: ostream

text \<open>The test \<open>event_name && event_name[0]\<close>.\<close>

fun nonempty :: "string option \<Rightarrow> bool" where
  "nonempty None = False"
| "nonempty (Some []) = False"
| "nonempty (Some (c # cs)) = True"

text \<open>The characters \<open>operator<<(char const*)\<close> writes; it is only called on a non-null pointer.\<close>

fun c_str :: "string option \<Rightarrow> string" where
  "c_str None = []"
| "c_str (Some cs) = cs"

definition IsStarted :: "'w::len word basic_stopwatch \<Rightarrow> bool" where
  "IsStarted s = TimerBaseChrono_IsStarted s"

definition LapGet :: "'w::len word basic_stopwatch \<Rightarrow> 'w word" where
  "LapGet s = m_lap s"

definition Show ::
  "policy \<Rightarrow> string option \<Rightarrow> 'w::len word basic_stopwatch \<Rightarrow> world
     \<Rightarrow> 'w word \<times> 'w word basic_stopwatch \<times> world" where
  "Show p event_name s w =
     (if IsStarted s then
        (case GetMs p s w of (t, s1, w1) \<Rightarrow>
           let s2 = s1\<lparr>m_lap := t\<rparr>;
               w2 = (if nonempty event_name then
                       (if m_activity s2 \<noteq> None
                        then put (m_log s2)
                               (c_str (m_activity s2) @ '': '' @ c_str event_name @ '' at ''
                                  @ num_put w1 (m_log s2) (unat (m_lap s2)) @ ''mS'' @ endl) w1
                        else w1)
                     else w1)
           in (m_lap s2, s2, w2))
      else
        (let w1 = (if m_activity s \<noteq> None
                   then put (m_log s) (c_str (m_activity s) @ '': not started'' @ endl) w
                   else w)
         in (m_lap s, s, w1)))"

definition Stop ::
  "policy \<Rightarrow> string option \<Rightarrow> 'w::len word basic_stopwatch \<Rightarrow> world
     \<Rightarrow> 'w word \<times> 'w word basic_stopwatch \<times> world" where
  "Stop p event_name s w =
     (case (if IsStarted s then
              (case GetMs p s w of (t, s1, w1) \<Rightarrow>
                 let s2 = s1\<lparr>m_lap := t\<rparr>;
                     w2 = (if nonempty event_name then
                             (if m_activity s2 \<noteq> None
                              then put (m_log s2)
                                     (c_str (m_activity s2) @ '': '' @ c_str event_name @ '' ''
                                        @ num_put w1 (m_log s2) (unat (m_lap s2)) @ ''mS'' @ endl) w1
                              else w1)
                           else w1)
                 in (s2, w2))
            else (s, w)) of
        (s3, w3) \<Rightarrow> let s4 = TimerBaseChrono_Clear s3 in (m_lap s4, s4, w3))"

definition Start ::
  "policy \<Rightarrow> string option \<Rightarrow> 'w::len word basic_stopwatch \<Rightarrow> world
     \<Rightarrow> 'w word \<times> 'w word basic_stopwatch \<times> world" where
  "Start p event_name s w =
     (case (if IsStarted s then
              (case Stop p event_name s w of (r, s1, w1) \<Rightarrow> (s1, w1))
            else
              (s, if nonempty event_name then
                    (if m_activity s \<noteq> None
                     then put (m_log s) (c_str (m_activity s) @ '': '' @ c_str event_name @ endl) w
                     else w)
                  else w)) of
        (s2, w2) \<Rightarrow>
          (case TimerBaseChrono_Start s2 w2 of (s3, w3) \<Rightarrow> (m_lap s3, s3, w3)))"

text \<open>The default arguments of the three operations.\<close>

definition Show_default :: "string option" where
  "Show_default = Some ''show''"

definition Start_default :: "string option" where
  "Start_default = Some ''start''"

definition Stop_default :: "string option" where
  "Stop_default = Some ''stop''"

text \<open>
  The constructors. The member initialisers run first, with \<open>m_start\<close> cleared by the
  base class's constructor; then the body starts the timer if asked to.
\<close>

definition normalise :: "string option \<Rightarrow> string option" where
  "normalise activity = (if nonempty activity then activity else None)"

definition ctor_body ::
  "policy \<Rightarrow> bool \<Rightarrow> 'w::len word basic_stopwatch \<Rightarrow> world \<Rightarrow> 'w word basic_stopwatch \<times> world" where
  "ctor_body p start_now s w =
     (if start_now then
        (if m_activity s \<noteq> None
         then (case Start p Start_default s w of (r, s', w') \<Rightarrow> (s', w'))
         else (case Start p None s w of (r, s', w') \<Rightarrow> (s', w')))
      else (s, w))"

definition basic_stopwatch_bool ::
  "policy \<Rightarrow> bool \<Rightarrow> world \<Rightarrow> 'w::len word basic_stopwatch \<times> world" where
  "basic_stopwatch_bool p start_now w =
     (let s = \<lparr>m_start = time_point_min, m_activity = Some ''Stopwatch'', m_lap = 0,
               m_log = cout\<rparr>
      in if start_now then (case Start p Start_default s w of (r, s', w') \<Rightarrow> (s', w'))
         else (s, w))"

definition basic_stopwatch_activity ::
  "policy \<Rightarrow> string option \<Rightarrow> bool \<Rightarrow> world \<Rightarrow> 'w::len word basic_stopwatch \<times> world" where
  "basic_stopwatch_activity p activity start_now w =
     ctor_body p start_now
       \<lparr>m_start = time_point_min, m_activity = normalise activity, m_lap = 0, m_log = cout\<rparr> w"

definition basic_stopwatch_log ::
  "policy \<Rightarrow> ostream \<Rightarrow> string option \<Rightarrow> bool \<Rightarrow> world
     \<Rightarrow> 'w::len word basic_stopwatch \<times> world" where
  "basic_stopwatch_log p log activity start_now w =
     ctor_body p start_now
       \<lparr>m_start = time_point_min, m_activity = normalise activity, m_lap = 0, m_log = log\<rparr> w"

text \<open>The destructor; the object is gone afterwards, the world remains.\<close>

definition destroy :: "policy \<Rightarrow> 'w::len word basic_stopwatch \<Rightarrow> world \<Rightarrow> world" where
  "destroy p s w =
     (if IsStarted s then
        (if m_activity s \<noteq> None
         then (case Stop p Stop_default s w of (r, s', w') \<Rightarrow> w')
         else (case Stop p None s w of (r, s', w') \<Rightarrow> w'))
      else w)"

subsection \<open>Client programs\<close>

text \<open>
  A client holds one timer and calls \<open>Show\<close>, \<open>Start\<close> and \<open>Stop\<close> on it in some order,
  each with an event name. \<open>do_calls\<close> runs such a sequence and collects the values the
  calls return.
\<close>

datatype call = Call_Show "string option" | Call_Start "string option" | Call_Stop "string option"

fun do_call ::
  "policy \<Rightarrow> call \<Rightarrow> 'w::len word basic_stopwatch \<Rightarrow> world
     \<Rightarrow> 'w word \<times> 'w word basic_stopwatch \<times> world" where
  "do_call p (Call_Show e) s w = Show p e s w"
| "do_call p (Call_Start e) s w = Start p e s w"
| "do_call p (Call_Stop e) s w = Stop p e s w"

fun do_calls ::
  "policy \<Rightarrow> call list \<Rightarrow> 'w::len word basic_stopwatch \<Rightarrow> world
     \<Rightarrow> 'w word list \<times> 'w word basic_stopwatch \<times> world" where
  "do_calls p [] s w = ([], s, w)"
| "do_calls p (c # cs) s w =
     (case do_call p c s w of
        (r, s1, w1) \<Rightarrow> (case do_calls p cs s1 w1 of (rs, s2, w2) \<Rightarrow> (r # rs, s2, w2)))"

text \<open>
  The whole life of a timer in a client: constructed on a stream with a label, called, and
  destroyed. The result holds the values the calls returned, the timer and the world before
  the destructor runs, and the world after it.
\<close>

definition lifetime ::
  "policy \<Rightarrow> ostream \<Rightarrow> string option \<Rightarrow> bool \<Rightarrow> call list \<Rightarrow> world
     \<Rightarrow> 'w::len word list \<times> 'w word basic_stopwatch \<times> world \<times> world" where
  "lifetime p log activity start_now cs w =
     (case basic_stopwatch_log p log activity start_now w of
        (s0, w0) \<Rightarrow>
          (case do_calls p cs s0 w0 of
             (rs, s1, w1) \<Rightarrow> (rs, s1, w1, destroy p s1 w1)))"

text \<open>
  A world for examples: the clock returns the given readings in order, nothing has been
  written to any stream, and every stream is in its default state. A timer for examples:
  constructed on \<open>cout\<close>, with a mark and a label.
\<close>

definition world_of :: "time_point list \<Rightarrow> world" where
  "world_of ts =
     \<lparr>now_seq = (\<lambda>i. if i < length ts then ts ! i else 0), now_cnt = 0,
      streams = (\<lambda>k. []), num_put = (\<lambda>k. put_ulong)\<rparr>"

definition timer_of :: "time_point \<Rightarrow> string option \<Rightarrow> 64 word basic_stopwatch" where
  "timer_of t a = \<lparr>m_start = t, m_activity = a, m_lap = 0, m_log = cout\<rparr>"

text \<open>
  Names for what the operations do to the world: \<open>tick\<close> is the world after one reading of
  the clock, \<open>reading\<close> the value that reading returns, and \<open>elapsed\<close> the tick count
  \<open>GetMs\<close> computes from it.
\<close>

definition tick :: "world \<Rightarrow> world" where
  "tick w = w\<lparr>now_cnt := Suc (now_cnt w)\<rparr>"

definition reading :: "world \<Rightarrow> time_point" where
  "reading w = now_seq w (now_cnt w)"

definition elapsed :: "policy \<Rightarrow> 'a TimerBaseChrono_scheme \<Rightarrow> world \<Rightarrow> 'w::len word" where
  "elapsed p t w = word_of_int (duration_cast p (wrap64 (reading w - m_start t)))"

text \<open>
  Two timers in two worlds have the same timing when they agree on the mark, the lap and the
  clock; they may differ in label, stream and output.
\<close>

definition same_timing ::
  "'w::len word basic_stopwatch \<Rightarrow> world \<Rightarrow> 'w word basic_stopwatch \<Rightarrow> world \<Rightarrow> bool" where
  "same_timing s w s' w' =
     (m_start s = m_start s' \<and> m_lap s = m_lap s'
      \<and> now_seq w = now_seq w' \<and> now_cnt w = now_cnt w')"

text \<open>The number that a string of decimal digits denotes.\<close>

definition digit_value :: "char \<Rightarrow> nat" where
  "digit_value c = of_char c - 48"

definition decimal_value :: "string \<Rightarrow> nat" where
  "decimal_value cs = foldl (\<lambda>v c. 10 * v + digit_value c) 0 cs"

section \<open>What each operation does\<close>

text \<open>
  Each operation written as one equation per state of the timer. These lemmas unfold the
  definitions once; the theorems below are stated and proved from them.
\<close>

lemma clock_now_eq: "clock_now w = (reading w, tick w)"
  by (simp add: clock_now_def reading_def tick_def)

lemma GetMs_eq:
  "GetMs p t w = (if TimerBaseChrono_IsStarted t then (elapsed p t w, t, tick w) else (0, t, w))"
  by (simp add: GetMs_def clock_now_eq elapsed_def)

lemma Show_eq:
  "Show p e s w =
     (if IsStarted s then
        (elapsed p s w, s\<lparr>m_lap := elapsed p s w\<rparr>,
         if nonempty e \<and> m_activity s \<noteq> None
         then put (m_log s) (c_str (m_activity s) @ '': '' @ c_str e @ '' at ''
                @ num_put w (m_log s) (unat (elapsed p s w :: 'w word)) @ ''mS'' @ endl) (tick w)
         else tick w)
      else (m_lap s, s,
         if m_activity s \<noteq> None
         then put (m_log s) (c_str (m_activity s) @ '': not started'' @ endl) w else w))"
  for s :: "'w::len word basic_stopwatch"
  by (simp add: Show_def GetMs_eq IsStarted_def Let_def tick_def)

lemma Stop_eq:
  "Stop p e s w =
     (if IsStarted s then
        (elapsed p s w, s\<lparr>m_start := time_point_min, m_lap := elapsed p s w\<rparr>,
         if nonempty e \<and> m_activity s \<noteq> None
         then put (m_log s) (c_str (m_activity s) @ '': '' @ c_str e @ '' ''
                @ num_put w (m_log s) (unat (elapsed p s w :: 'w word)) @ ''mS'' @ endl) (tick w)
         else tick w)
      else (m_lap s, s, w))"
  for s :: "'w::len word basic_stopwatch"
  by (simp add: Stop_def GetMs_eq IsStarted_def Let_def TimerBaseChrono_Clear_def
      TimerBaseChrono_IsStarted_def tick_def)

lemma Start_eq:
  "Start p e s w =
     (if IsStarted s then
        (elapsed p s w, s\<lparr>m_start := reading (tick w), m_lap := elapsed p s w\<rparr>,
         tick (if nonempty e \<and> m_activity s \<noteq> None
               then put (m_log s) (c_str (m_activity s) @ '': '' @ c_str e @ '' ''
                      @ num_put w (m_log s) (unat (elapsed p s w :: 'w word)) @ ''mS'' @ endl) (tick w)
               else tick w))
      else (m_lap s, s\<lparr>m_start := reading w\<rparr>,
         tick (if nonempty e \<and> m_activity s \<noteq> None
               then put (m_log s) (c_str (m_activity s) @ '': '' @ c_str e @ endl) w
               else w)))"
  for s :: "'w::len word basic_stopwatch"
  by (simp add: Start_def Stop_eq TimerBaseChrono_Start_def clock_now_eq
        reading_def tick_def put_def)

lemma Start_stopped:
  fixes s :: "'w::len word basic_stopwatch"
  assumes "\<not> IsStarted s"
  shows "Start p e s w =
           (m_lap s, s\<lparr>m_start := reading w\<rparr>,
            tick (if nonempty e \<and> m_activity s \<noteq> None
                  then put (m_log s) (c_str (m_activity s) @ '': '' @ c_str e @ endl) w
                  else w))"
  using assms by (simp add: Start_eq)

lemma cleared_not_started:
  fixes s :: "'w::len word basic_stopwatch"
  shows "\<not> IsStarted (s\<lparr>m_start := time_point_min, m_lap := x\<rparr>)"
  by (simp add: IsStarted_def TimerBaseChrono_IsStarted_def)

lemma IsStarted_timer_of: "IsStarted (timer_of t a) = (t \<noteq> time_point_min)"
  by (simp add: IsStarted_def TimerBaseChrono_IsStarted_def timer_of_def)

text \<open>The definitions that the examples evaluate.\<close>

lemmas eval_defs =
  timer_of_def world_of_def reading_def tick_def put_def endl_def cout_def
  Stopwatch_def Stopwatchmicro_def valid_policy_def time_point_min_def
  IsStarted_def TimerBaseChrono_IsStarted_def LapGet_def elapsed_def duration_cast_def
  signed_divide_int_def Start_default_def Stop_default_def Show_default_def
  int64_def wrap64_def


text \<open>
  \<open>duration_cast\<close> truncates towards zero: the floor of a non-negative duration, minus the
  floor of the opposite of a negative one.
\<close>

lemma sdiv_nonneg: "0 \<le> a \<Longrightarrow> 0 < b \<Longrightarrow> a sdiv b = a div (b::int)"
  by (cases "a = 0") (simp_all add: signed_divide_int_def)

lemma sdiv_neg: "a < 0 \<Longrightarrow> 0 < b \<Longrightarrow> a sdiv b = - ((- a) div (b::int))"
  by (simp add: signed_divide_int_def)

lemma floor_div_bounds:
  fixes a b :: int
  assumes "0 < b"
  shows "a div b * b \<le> a \<and> a < (a div b + 1) * b"
proof -
  have split: "a div b * b + a mod b = a"
    by (rule div_mult_mod_eq)
  have m0: "0 \<le> a mod b" and m1: "a mod b < b"
    using assms by simp_all
  have step: "(a div b + 1) * b = a div b * b + b"
    by (simp add: distrib_right)
  show ?thesis
    using split m0 m1 step by linarith
qed

lemma wrap64_id: "int64 x \<Longrightarrow> wrap64 x = x"
  by (simp add: int64_def wrap64_def)

lemma duration_cast_nonneg:
  "valid_policy p \<Longrightarrow> int64 (d * cf_num p) \<Longrightarrow> 0 \<le> d
     \<Longrightarrow> duration_cast p d = d * cf_num p div cf_den p"
  by (simp add: duration_cast_def valid_policy_def sdiv_nonneg wrap64_id)

lemma duration_cast_neg:
  "valid_policy p \<Longrightarrow> int64 (d * cf_num p) \<Longrightarrow> d < 0
     \<Longrightarrow> duration_cast p d = - ((- d) * cf_num p div cf_den p)"
  by (simp add: duration_cast_def valid_policy_def sdiv_neg mult_neg_pos wrap64_id)

lemma elapsed_in_range:
  "int64 (reading w - m_start t)
     \<Longrightarrow> elapsed p t w = word_of_int (duration_cast p (reading w - m_start t))"
  by (simp add: elapsed_def wrap64_id)


lemma uint_neg_wrap:
  fixes k :: int
  assumes "1 \<le> k" and "k \<le> 2 ^ (LENGTH('w::len) - 1)"
  shows "uint (word_of_int (- k) :: 'w word) = 2 ^ LENGTH('w) - k"
    and "2 ^ (LENGTH('w) - 1) \<le> uint (word_of_int (- k) :: 'w word)"
proof -
  have two: "(2::int) ^ LENGTH('w) = 2 * 2 ^ (LENGTH('w) - 1)"
    by (metis len_gt_0 power_minus_mult mult.commute)
  have pos: "(0::int) < 2 ^ (LENGTH('w) - 1)" by simp
  have lt: "k < 2 ^ LENGTH('w)" using assms(2) two pos by linarith
  have "k mod 2 ^ LENGTH('w) = k"
    using assms(1) lt by simp
  then have "(- k) mod 2 ^ LENGTH('w) = 2 ^ LENGTH('w) - k"
    using assms(1) by (simp add: zmod_zminus1_eq_if)
  moreover have "uint (word_of_int (- k) :: 'w word) = (- k) mod 2 ^ LENGTH('w)"
    by (rule uint_word_of_int)
  ultimately show u: "uint (word_of_int (- k) :: 'w word) = 2 ^ LENGTH('w) - k"
    by (simp only:)
  show "2 ^ (LENGTH('w) - 1) \<le> uint (word_of_int (- k) :: 'w word)"
    using u two assms(2) by linarith
qed


section \<open>Show, Stop and the destructor on a stopped timer\<close>

text \<open>
  Claim C5. On a timer in the Stopped state, \<open>Show\<close> writes the line
  \<open><activity>: not started\<close> to the timer's stream if and only if the activity label is
  not suppressed; it does not read the clock, leaves the timer as it is, and returns the
  current lap value unchanged. This holds for every event name.
\<close>

theorem C5_Show_stopped:
  fixes s :: "'w::len word basic_stopwatch"
  assumes "\<not> IsStarted s"
  shows "Show p e s w =
           (LapGet s, s,
            if m_activity s \<noteq> None
            then put (m_log s) (c_str (m_activity s) @ '': not started'' @ endl) w else w)
         \<and> (streams (snd (snd (Show p e s w))) \<noteq> streams w) = (m_activity s \<noteq> None)
         \<and> now_cnt (snd (snd (Show p e s w))) = now_cnt w
         \<and> LapGet (fst (snd (Show p e s w))) = LapGet s"
  using assms
  by (auto simp add: Show_eq LapGet_def put_def endl_def fun_eq_iff)

theorem C5_Show_stopped_witness:
  "\<not> IsStarted (timer_of time_point_min (Some ''Work''))
   \<and> Show Stopwatch (Some ''show'') (timer_of time_point_min (Some ''Work'')) (world_of [7])
       = (0, timer_of time_point_min (Some ''Work''),
          put cout (''Work: not started'' @ endl) (world_of [7]))"
proof -
  have h: "\<not> IsStarted (timer_of time_point_min (Some ''Work''))"
    by (simp add: IsStarted_timer_of)
  show ?thesis
    using h C5_Show_stopped [OF h, of Stopwatch "Some ''show''" "world_of [7]"]
    by (simp add: timer_of_def LapGet_def)
qed

text \<open>
  Claim C6. On a timer in the Stopped state, \<open>Stop\<close> with any event name writes nothing,
  does not read the clock, leaves the lap value (and the whole timer) unchanged and returns
  that lap value.
\<close>

theorem C6_Stop_stopped:
  fixes s :: "'w::len word basic_stopwatch"
  assumes "\<not> IsStarted s"
  shows "Stop p e s w = (LapGet s, s, w)"
  using assms by (simp add: Stop_eq LapGet_def)

theorem C6_Stop_stopped_witness:
  "\<not> IsStarted (timer_of time_point_min (Some ''Work''))
   \<and> Stop Stopwatch (Some ''done'') (timer_of time_point_min (Some ''Work'')) (world_of [7])
       = (0, timer_of time_point_min (Some ''Work''), world_of [7])"
proof -
  have h: "\<not> IsStarted (timer_of time_point_min (Some ''Work''))"
    by (simp add: IsStarted_timer_of)
  show ?thesis
    using h C6_Stop_stopped [OF h, of Stopwatch "Some ''done''" "world_of [7]"]
    by (simp add: timer_of_def LapGet_def)
qed

text \<open>
  Claim C7. The destructor of a Running timer performs \<open>Stop\<close> with the default event name
  \<open>stop\<close>: it reads the clock once and, if the label is not suppressed, writes exactly the
  one line \<open><activity>: stop <N>mS\<close>; with a suppressed label it writes nothing. The
  destructor of a Stopped timer leaves the world as it is.
\<close>

theorem C7_destructor:
  fixes s :: "'w::len word basic_stopwatch"
  shows "destroy p s w =
           (if IsStarted s then
              (if m_activity s \<noteq> None
               then put (m_log s) (c_str (m_activity s) @ '': stop ''
                      @ num_put w (m_log s) (unat (elapsed p s w :: 'w word)) @ ''mS'' @ endl) (tick w)
               else tick w)
            else w)
         \<and> destroy p s w = (if IsStarted s then snd (snd (Stop p Stop_default s w)) else w)"
  by (simp add: destroy_def Stop_eq Stop_default_def)

section \<open>The clock adapter\<close>

text \<open>
  Claim C8, as stated, fails where \<open>unsigned long\<close> has 32 bits (as on 32-bit Linux, with
  the same 64-bit clock counts): the cast reduces the count modulo \<open>2 ^ 32\<close>. With the
  microsecond policy, a mark at \<open>0\<close> and a reading \<open>4294967296\<close> microseconds later,
  \<open>GetMs\<close> returns \<open>0\<close>, not the duration.
\<close>

theorem C8_counterexample:
  "TimerBaseChrono_IsStarted \<lparr>m_start = 0\<rparr>
   \<and> m_start \<lparr>m_start = 0\<rparr> \<le> reading (world_of [4294967296000])
   \<and> (reading (world_of [4294967296000]) - m_start \<lparr>m_start = 0\<rparr>)
         * cf_num Stopwatchmicro div cf_den Stopwatchmicro = 4294967296
   \<and> fst (GetMs Stopwatchmicro \<lparr>m_start = 0\<rparr> (world_of [4294967296000])) = (0 :: 32 word)"
  by (simp add: GetMs_eq eval_defs)

text \<open>
  Claim C8, amended. On a marked clock whose reading is not before the mark, with 64-bit
  counts that do not overflow, \<open>GetMs\<close> reads the clock once and returns the duration
  from the mark to the reading in whole units of the policy's resolution, rounded down
  (the count \<open>q\<close> with \<open>q * den \<le> d * num < (q + 1) * den\<close>), reduced modulo \<open>2 ^ w\<close>
  by the cast to \<open>unsigned long\<close>: it is \<open>q\<close> itself when \<open>q < 2 ^ w\<close>. On every
  clock without a mark it returns zero and does not read the clock. In both cases the
  timer, and so its mark, is returned as it was.
\<close>

theorem C8_GetMs:
  fixes t :: "'a TimerBaseChrono_scheme" and t0 :: "'b TimerBaseChrono_scheme"
  assumes "valid_policy p" and "TimerBaseChrono_IsStarted t"
    and "int64 (m_start t)" and "int64 (reading w)" and "m_start t \<le> reading w"
    and "int64 (reading w - m_start t)" and "int64 ((reading w - m_start t) * cf_num p)"
    and "q = (reading w - m_start t) * cf_num p div cf_den p"
  shows "GetMs p t w = (word_of_int q :: 'w::len word, t, tick w)
       \<and> uint (fst (GetMs p t w) :: 'w word) = q mod 2 ^ LENGTH('w)
       \<and> (q < 2 ^ LENGTH('w) \<longrightarrow> uint (fst (GetMs p t w) :: 'w word) = q)
       \<and> 0 \<le> q
       \<and> q * cf_den p \<le> (reading w - m_start t) * cf_num p
       \<and> (reading w - m_start t) * cf_num p < (q + 1) * cf_den p
       \<and> (GetMs p t0 w0 :: 'w word \<times> 'b TimerBaseChrono_scheme \<times> world) =
           (if TimerBaseChrono_IsStarted t0 then (elapsed p t0 w0, t0, tick w0)
            else (0, t0, w0))"
proof -
  let ?d = "reading w - m_start t"
  have den: "0 < cf_den p" and num: "0 < cf_num p"
    using assms(1) by (simp_all add: valid_policy_def)
  have d: "0 \<le> ?d" using assms(5) by simp
  have q0: "0 \<le> q" using d num den assms(8) by (simp add: pos_imp_zdiv_nonneg_iff)
  have cast: "duration_cast p ?d = q"
    using duration_cast_nonneg [OF assms(1) assms(7) d] assms(8) by simp
  have el: "(elapsed p t w :: 'w word) = word_of_int q"
    using elapsed_in_range [OF assms(6), of p] cast by simp
  have c1: "GetMs p t w = (word_of_int q :: 'w word, t, tick w)"
    using assms(2) el by (simp add: GetMs_eq)
  have c2: "uint (fst (GetMs p t w) :: 'w word) = q mod 2 ^ LENGTH('w)"
    unfolding c1 fst_conv by (rule uint_word_of_int)
  have c3: "q < 2 ^ LENGTH('w) \<longrightarrow> uint (fst (GetMs p t w) :: 'w word) = q"
    using c2 q0 by simp
  have c5: "q * cf_den p \<le> ?d * cf_num p" and c6: "?d * cf_num p < (q + 1) * cf_den p"
    using floor_div_bounds [OF den, of "?d * cf_num p"] assms(8) by simp_all
  have c7: "(GetMs p t0 w0 :: 'w word \<times> 'b TimerBaseChrono_scheme \<times> world) =
           (if TimerBaseChrono_IsStarted t0 then (elapsed p t0 w0, t0, tick w0)
            else (0, t0, w0))"
    by (rule GetMs_eq)
  show ?thesis
    by (intro conjI) (rule c1 c2 c3 q0 c5 c6 c7)+
qed

theorem C8_GetMs_witness:
  "valid_policy Stopwatch
   \<and> TimerBaseChrono_IsStarted (timer_of 200 None)
   \<and> int64 (m_start (timer_of 200 None)) \<and> int64 (reading (world_of [50500200]))
   \<and> m_start (timer_of 200 None) \<le> reading (world_of [50500200])
   \<and> int64 (reading (world_of [50500200]) - m_start (timer_of 200 None))
   \<and> (50::int) < 2 ^ LENGTH(64)
   \<and> GetMs Stopwatch (timer_of 200 None) (world_of [50500200])
       = (50 :: 64 word, timer_of 200 None, tick (world_of [50500200]))
   \<and> uint (fst (GetMs Stopwatch (timer_of 200 None) (world_of [50500200])) :: 64 word) = 50
   \<and> GetMs Stopwatch (timer_of time_point_min None) (world_of [50500200])
       = (0 :: 64 word, timer_of time_point_min None, world_of [50500200])"
proof -
  have h1: "valid_policy Stopwatch" by (simp add: eval_defs)
  have h2: "TimerBaseChrono_IsStarted (timer_of 200 None)" by (simp add: eval_defs)
  have h3: "int64 (m_start (timer_of 200 None))" by (simp add: eval_defs)
  have h4: "int64 (reading (world_of [50500200]))" by (simp add: eval_defs)
  have h5: "m_start (timer_of 200 None) \<le> reading (world_of [50500200])"
    by (simp add: eval_defs)
  have h6: "int64 (reading (world_of [50500200]) - m_start (timer_of 200 None))"
    by (simp add: eval_defs)
  have h7: "int64 ((reading (world_of [50500200]) - m_start (timer_of 200 None))
              * cf_num Stopwatch)"
    by (simp add: eval_defs)
  have h8: "(50::int) = (reading (world_of [50500200]) - m_start (timer_of 200 None))
              * cf_num Stopwatch div cf_den Stopwatch"
    by (simp add: eval_defs)
  have h9: "(50::int) < 2 ^ LENGTH(64)" by simp
  note t = C8_GetMs [OF h1 h2 h3 h4 h5 h6 h7 h8, where 'w = 64
      and ?t0.0 = "timer_of time_point_min None" and ?w0.0 = "world_of [50500200]"]
  have a: "GetMs Stopwatch (timer_of 200 None) (world_of [50500200])
       = (50 :: 64 word, timer_of 200 None, tick (world_of [50500200]))"
    using t [THEN conjunct1] by simp
  have b: "uint (fst (GetMs Stopwatch (timer_of 200 None) (world_of [50500200])) :: 64 word)
       = 50"
    using t [THEN conjunct2, THEN conjunct2, THEN conjunct1] h9 by simp
  have n: "\<not> TimerBaseChrono_IsStarted (timer_of time_point_min None)"
    by (simp add: eval_defs)
  have c: "GetMs Stopwatch (timer_of time_point_min None) (world_of [50500200])
       = (0 :: 64 word, timer_of time_point_min None, world_of [50500200])"
    using t [THEN conjunct2, THEN conjunct2, THEN conjunct2, THEN conjunct2, THEN conjunct2,
        THEN conjunct2] n
    by simp
  show ?thesis
    by (intro conjI) (rule h1 h2 h3 h4 h5 h6 h9 a b c)+
qed

text \<open>
  Claim C9. After \<open>Start\<close> on a Stopped timer \<open>IsStarted\<close> is true, for every reading of
  the clock other than \<open>time_point::min()\<close>, the value that stands for a cleared mark.
  After \<open>Stop\<close> it is false, whatever the state before. \<open>Show\<close> leaves it as it was, in
  either state.
\<close>

theorem C9_IsStarted:
  fixes s s' s'' :: "'w::len word basic_stopwatch"
  assumes "\<not> IsStarted s" and "reading w \<noteq> time_point_min"
  shows "IsStarted (fst (snd (Start p e s w)))
       \<and> \<not> IsStarted (fst (snd (Stop p e' s' w')))
       \<and> IsStarted (fst (snd (Show p e'' s'' w''))) = IsStarted s''"
  using assms
  by (simp add: Start_eq Stop_eq Show_eq IsStarted_def TimerBaseChrono_IsStarted_def)

theorem C9_IsStarted_witness:
  "\<not> IsStarted (timer_of time_point_min (Some ''Work''))
   \<and> reading (world_of [1000]) \<noteq> time_point_min
   \<and> IsStarted (fst (snd (Start Stopwatch (Some ''go'')
         (timer_of time_point_min (Some ''Work'')) (world_of [1000]))))"
proof -
  have h1: "\<not> IsStarted (timer_of time_point_min (Some ''Work''))"
    by (simp add: IsStarted_timer_of)
  have h2: "reading (world_of [1000]) \<noteq> time_point_min"
    by (simp add: eval_defs)
  show ?thesis
    using h1 h2 C9_IsStarted [OF h1 h2, of Stopwatch "Some ''go''"]
    by simp
qed


section \<open>A clock that is set back\<close>

text \<open>
  Claim C10, as stated, fails: a reading earlier than the mark by less than one unit of the
  resolution truncates to zero, and \<open>GetMs\<close> returns \<open>0\<close>. Here the mark is at
  \<open>1000000\<close> ns, the reading at \<open>500000\<close> ns, and the resolution is the millisecond.
\<close>

theorem C10_counterexample:
  "IsStarted (timer_of 1000000 (Some ''Work''))
   \<and> reading (world_of [500000]) < m_start (timer_of 1000000 (Some ''Work''))
   \<and> fst (GetMs Stopwatch (timer_of 1000000 (Some ''Work'')) (world_of [500000])) = (0 :: 64 word)
   \<and> Show Stopwatch (Some ''cp'') (timer_of 1000000 (Some ''Work'')) (world_of [500000])
       = (0, timer_of 1000000 (Some ''Work''),
          put cout (''Work: cp at 0mS'' @ endl) (tick (world_of [500000])))"
  by (simp add: Show_eq GetMs_eq eval_defs put_ulong.simps)


text \<open>
  Claim C10, amended. When the reading is earlier than the mark by \<open>k\<close> whole units of the
  resolution, with 64-bit counts that do not overflow, \<open>GetMs\<close> returns \<open>- k\<close> modulo
  \<open>2 ^ w\<close>, for every \<open>k\<close>: zero when \<open>k = 0\<close>, and \<open>2 ^ w - k\<close>, at least
  \<open>2 ^ (w - 1)\<close>, when \<open>1 \<le> k \<le> 2 ^ (w - 1)\<close>. \<open>Show\<close> and \<open>Stop\<close> store this
  value as the lap, return it, and write the stream's text for it when the label and the
  event name are not suppressed.
\<close>

theorem C10_clock_set_back:
  fixes s :: "'w::len word basic_stopwatch"
  assumes "valid_policy p" and "IsStarted s"
    and "int64 (m_start s)" and "int64 (reading w)" and "reading w < m_start s"
    and "int64 (reading w - m_start s)" and "int64 ((reading w - m_start s) * cf_num p)"
    and "k = (m_start s - reading w) * cf_num p div cf_den p"
  shows "fst (GetMs p s w) = (word_of_int (- k) :: 'w word)
       \<and> uint (fst (GetMs p s w) :: 'w word) = (- k) mod 2 ^ LENGTH('w)
       \<and> (if k = 0 then fst (GetMs p s w) = (0 :: 'w word)
           else if k \<le> 2 ^ (LENGTH('w) - 1)
           then uint (fst (GetMs p s w) :: 'w word) = 2 ^ LENGTH('w) - k
              \<and> 2 ^ (LENGTH('w) - 1) \<le> uint (fst (GetMs p s w) :: 'w word)
           else uint (fst (GetMs p s w) :: 'w word) = (- k) mod 2 ^ LENGTH('w))
       \<and> fst (Show p e s w) = fst (GetMs p s w)
       \<and> LapGet (fst (snd (Show p e s w))) = fst (GetMs p s w)
       \<and> fst (Stop p e s w) = fst (GetMs p s w)
       \<and> LapGet (fst (snd (Stop p e s w))) = fst (GetMs p s w)
       \<and> streams (snd (snd (Show p e s w))) =
           (if nonempty e \<and> m_activity s \<noteq> None
            then (streams w)(m_log s := streams w (m_log s) @ c_str (m_activity s) @ '': ''
                   @ c_str e @ '' at ''
                   @ num_put w (m_log s) (unat (word_of_int (- k) :: 'w word))
                   @ ''mS'' @ endl)
            else streams w)
       \<and> streams (snd (snd (Stop p e s w))) =
           (if nonempty e \<and> m_activity s \<noteq> None
            then (streams w)(m_log s := streams w (m_log s) @ c_str (m_activity s) @ '': ''
                   @ c_str e @ '' ''
                   @ num_put w (m_log s) (unat (word_of_int (- k) :: 'w word))
                   @ ''mS'' @ endl)
            else streams w)"
proof -
  have started: "TimerBaseChrono_IsStarted s"
    using assms(2) by (simp add: IsStarted_def)
  have neg: "reading w - m_start s < 0" using assms(5) by simp
  have cast: "duration_cast p (reading w - m_start s) = - k"
    using duration_cast_neg [OF assms(1) assms(7) neg] assms(8) by simp
  have el: "(elapsed p s w :: 'w word) = word_of_int (- k)"
    using elapsed_in_range [OF assms(6), of p] cast by (simp only:)
  have get: "fst (GetMs p s w) = (word_of_int (- k) :: 'w word)"
    using started el by (simp add: GetMs_eq del: of_int_minus)
  have un: "uint (fst (GetMs p s w) :: 'w word) = (- k) mod 2 ^ LENGTH('w)"
    unfolding get by (rule uint_word_of_int)
  have k0: "0 \<le> k"
    using assms(1,5,8) by (simp add: valid_policy_def pos_imp_zdiv_nonneg_iff)
  have size: "if k = 0 then fst (GetMs p s w) = (0 :: 'w word)
           else if k \<le> 2 ^ (LENGTH('w) - 1)
           then uint (fst (GetMs p s w) :: 'w word) = 2 ^ LENGTH('w) - k
              \<and> 2 ^ (LENGTH('w) - 1) \<le> uint (fst (GetMs p s w) :: 'w word)
           else uint (fst (GetMs p s w) :: 'w word) = (- k) mod 2 ^ LENGTH('w)"
  proof (cases "k = 0")
    case True
    then show ?thesis using get by simp
  next
    case False
    then have k1: "1 \<le> k" using k0 by simp
    show ?thesis
    proof (cases "k \<le> 2 ^ (LENGTH('w) - 1)")
      case True
      then show ?thesis
        using \<open>k \<noteq> 0\<close> get uint_neg_wrap [OF k1 True] by simp
    next
      case False
      then show ?thesis
        using \<open>k \<noteq> 0\<close> un by simp
    qed
  qed
  have sh: "Show p e s w =
        (elapsed p s w, s\<lparr>m_lap := elapsed p s w\<rparr>,
         if nonempty e \<and> m_activity s \<noteq> None
         then put (m_log s) (c_str (m_activity s) @ '': '' @ c_str e @ '' at ''
                @ num_put w (m_log s) (unat (elapsed p s w :: 'w word)) @ ''mS'' @ endl)
                (tick w)
         else tick w)"
    using assms(2) Show_eq [of p e s w] by (simp only: if_True)
  have st: "Stop p e s w =
        (elapsed p s w, s\<lparr>m_start := time_point_min, m_lap := elapsed p s w\<rparr>,
         if nonempty e \<and> m_activity s \<noteq> None
         then put (m_log s) (c_str (m_activity s) @ '': '' @ c_str e @ '' ''
                @ num_put w (m_log s) (unat (elapsed p s w :: 'w word)) @ ''mS'' @ endl)
                (tick w)
         else tick w)"
    using assms(2) Stop_eq [of p e s w] by (simp only: if_True)
  have c3: "fst (Show p e s w) = fst (GetMs p s w)"
    and c4: "LapGet (fst (snd (Show p e s w))) = fst (GetMs p s w)"
    by (simp_all add: sh get el LapGet_def del: of_int_minus)
  have c5: "fst (Stop p e s w) = fst (GetMs p s w)"
    and c6: "LapGet (fst (snd (Stop p e s w))) = fst (GetMs p s w)"
    by (simp_all add: st get el LapGet_def del: of_int_minus)
  have c7: "streams (snd (snd (Show p e s w))) =
           (if nonempty e \<and> m_activity s \<noteq> None
            then (streams w)(m_log s := streams w (m_log s) @ c_str (m_activity s) @ '': ''
                   @ c_str e @ '' at ''
                   @ num_put w (m_log s) (unat (word_of_int (- k) :: 'w word))
                   @ ''mS'' @ endl)
            else streams w)"
    unfolding sh el by (auto simp add: put_def tick_def simp del: of_int_minus)
  have c8: "streams (snd (snd (Stop p e s w))) =
           (if nonempty e \<and> m_activity s \<noteq> None
            then (streams w)(m_log s := streams w (m_log s) @ c_str (m_activity s) @ '': ''
                   @ c_str e @ '' ''
                   @ num_put w (m_log s) (unat (word_of_int (- k) :: 'w word))
                   @ ''mS'' @ endl)
            else streams w)"
    unfolding st el by (auto simp add: put_def tick_def simp del: of_int_minus)
  show ?thesis
    by (intro conjI) (rule get un size c3 c4 c5 c6 c7 c8)+
qed

text \<open>
  The theorem at two inputs: 64 bits with \<open>k = 3\<close>, where \<open>Stop\<close> prints
  \<open>2 ^ 64 - 3\<close>; and 32 bits with \<open>k = 4294967291\<close>, above \<open>2 ^ 31\<close>, where \<open>GetMs\<close>
  returns \<open>5\<close>.
\<close>

theorem C10_clock_set_back_witness:
  "valid_policy Stopwatch
   \<and> IsStarted (timer_of 5000000 (Some ''Work''))
   \<and> int64 (m_start (timer_of 5000000 (Some ''Work''))) \<and> int64 (reading (world_of [1500000]))
   \<and> reading (world_of [1500000]) < m_start (timer_of 5000000 (Some ''Work''))
   \<and> int64 (reading (world_of [1500000]) - m_start (timer_of 5000000 (Some ''Work'')))
   \<and> fst (GetMs Stopwatch (timer_of 5000000 (Some ''Work'')) (world_of [1500000]))
       = (18446744073709551613 :: 64 word)
   \<and> streams (snd (snd (Stop Stopwatch (Some ''done'') (timer_of 5000000 (Some ''Work''))
         (world_of [1500000])))) cout = ''Work: done 18446744073709551613mS'' @ endl
   \<and> IsStarted (\<lparr>m_start = 4294967291000000, m_activity = None, m_lap = 0, m_log = cout\<rparr>
         :: 32 word basic_stopwatch)
   \<and> reading (world_of [0]) < 4294967291000000
   \<and> fst (GetMs Stopwatch
           (\<lparr>m_start = 4294967291000000, m_activity = None, m_lap = 0, m_log = cout\<rparr>
              :: 32 word basic_stopwatch) (world_of [0])) = (5 :: 32 word)"
proof -
  let ?s = "timer_of 5000000 (Some ''Work'')"
  let ?w = "world_of [1500000]"
  let ?s' = "\<lparr>m_start = 4294967291000000, m_activity = None, m_lap = 0, m_log = cout\<rparr>
               :: 32 word basic_stopwatch"
  let ?w' = "world_of [0]"
  have h1: "valid_policy Stopwatch" by (simp add: eval_defs)
  have h2: "IsStarted ?s" by (simp add: eval_defs)
  have h3: "int64 (m_start ?s)" by (simp add: eval_defs)
  have h4: "int64 (reading ?w)" by (simp add: eval_defs)
  have h5: "reading ?w < m_start ?s" by (simp add: eval_defs)
  have h6: "int64 (reading ?w - m_start ?s)" by (simp add: eval_defs)
  have h7: "int64 ((reading ?w - m_start ?s) * cf_num Stopwatch)" by (simp add: eval_defs)
  have h8: "(3::int) = (m_start ?s - reading ?w) * cf_num Stopwatch div cf_den Stopwatch"
    by (simp add: eval_defs)
  note t = C10_clock_set_back [OF h1 h2 h3 h4 h5 h6 h7 h8, of "Some ''done''"]
  have a: "fst (GetMs Stopwatch ?s ?w) = (18446744073709551613 :: 64 word)"
    using t [THEN conjunct1] by simp
  have b: "streams (snd (snd (Stop Stopwatch (Some ''done'') ?s ?w))) cout
             = ''Work: done 18446744073709551613mS'' @ endl"
    using t by (simp add: timer_of_def world_of_def cout_def endl_def put_ulong.simps)
  have g2: "IsStarted ?s'" by (simp add: eval_defs)
  have g3: "int64 (m_start ?s')" by (simp add: eval_defs)
  have g4: "int64 (reading ?w')" by (simp add: eval_defs)
  have g5: "reading ?w' < m_start ?s'" by (simp add: eval_defs)
  have g6: "int64 (reading ?w' - m_start ?s')" by (simp add: eval_defs)
  have g7: "int64 ((reading ?w' - m_start ?s') * cf_num Stopwatch)" by (simp add: eval_defs)
  have g8: "(4294967291::int) = (m_start ?s' - reading ?w') * cf_num Stopwatch
              div cf_den Stopwatch"
    by (simp add: eval_defs)
  note t' = C10_clock_set_back [OF h1 g2 g3 g4 g5 g6 g7 g8]
  have c: "fst (GetMs Stopwatch ?s' ?w') = (5 :: 32 word)"
    using t' [THEN conjunct1] by simp
  have g5': "reading ?w' < 4294967291000000" using g5 by simp
  show ?thesis
    by (intro conjI) (rule h1 h2 h3 h4 h5 h6 a b g2 g5' c)+
qed

section \<open>Empty and absent event names\<close>

text \<open>
  Claim C1, as stated, fails for \<open>Show\<close> on a Stopped timer: the line
  \<open><activity>: not started\<close> is written under the test of the label alone, so an absent
  event name does not suppress it.
\<close>

theorem C1_counterexample:
  "\<not> nonempty None
   \<and> \<not> IsStarted (timer_of time_point_min (Some ''Work''))
   \<and> streams (snd (snd (Show Stopwatch None (timer_of time_point_min (Some ''Work''))
         (world_of [7])))) cout = ''Work: not started'' @ endl
   \<and> streams (world_of [7]) cout = []"
  by (simp add: Show_eq eval_defs)

text \<open>
  Claim C1, amended. With an empty or absent event name, \<open>Start\<close> and \<open>Stop\<close> in either
  state and \<open>Show\<close> on a Running timer write nothing, and measure and change state as with
  any other name: \<open>Show\<close> on a Running timer stores the elapsed ticks as the lap and keeps
  the mark; \<open>Stop\<close> on a Running timer stores the elapsed ticks and clears the mark;
  \<open>Start\<close> on a Stopped timer sets the mark to the reading and keeps the lap; \<open>Start\<close> on
  a Running timer stores the elapsed ticks and sets the mark to the next reading. \<open>Show\<close>
  on a Stopped timer writes \<open><activity>: not started\<close> if the label is not suppressed,
  whatever the event name.
\<close>

theorem C1_empty_event:
  fixes s :: "'w::len word basic_stopwatch"
  assumes "\<not> nonempty e"
  shows "Show p e s w =
           (if IsStarted s then (elapsed p s w, s\<lparr>m_lap := elapsed p s w\<rparr>, tick w)
            else (m_lap s, s,
                  if m_activity s \<noteq> None
                  then put (m_log s) (c_str (m_activity s) @ '': not started'' @ endl) w
                  else w))
       \<and> Stop p e s w =
           (if IsStarted s
            then (elapsed p s w, s\<lparr>m_start := time_point_min, m_lap := elapsed p s w\<rparr>, tick w)
            else (m_lap s, s, w))
       \<and> Start p e s w =
           (if IsStarted s
            then (elapsed p s w, s\<lparr>m_start := reading (tick w), m_lap := elapsed p s w\<rparr>,
                  tick (tick w))
            else (m_lap s, s\<lparr>m_start := reading w\<rparr>, tick w))
       \<and> streams (snd (snd (Stop p e s w))) = streams w
       \<and> streams (snd (snd (Start p e s w))) = streams w
       \<and> streams (snd (snd (Show p e s w))) =
           (if \<not> IsStarted s \<and> m_activity s \<noteq> None
            then (streams w)(m_log s := streams w (m_log s) @ c_str (m_activity s)
                   @ '': not started'' @ endl)
            else streams w)"
  using assms by (simp add: Show_eq Stop_eq Start_eq tick_def put_def)

theorem C1_empty_event_witness:
  "\<not> nonempty (Some [])
   \<and> Stop Stopwatch (Some []) (timer_of 0 (Some ''Work'')) (world_of [50000000])
       = (50, \<lparr>m_start = time_point_min, m_activity = Some ''Work'', m_lap = 50, m_log = cout\<rparr>,
          tick (world_of [50000000]))"
proof -
  have h: "\<not> nonempty (Some [])" by simp
  show ?thesis
    using h C1_empty_event [OF h, of Stopwatch "timer_of 0 (Some ''Work'')" "world_of [50000000]"]
    by (simp add: eval_defs)
qed

section \<open>Start on a running timer\<close>

text \<open>
  Claim C2, as stated, fails on a labelled timer: \<open>Start()\<close> has the default event name
  \<open>start\<close>, so after \<open>Stop(e)\<close> it writes the line \<open><activity>: start\<close>, which
  \<open>Start(e)\<close> on the Running timer does not write.
\<close>

theorem C2_counterexample:
  "IsStarted (timer_of 0 (Some ''Work''))
   \<and> streams (snd (snd (Start Stopwatch (Some ''lap'') (timer_of 0 (Some ''Work''))
         (world_of [50000000, 60000000])))) cout = ''Work: lap 50mS'' @ endl
   \<and> streams (snd (snd (case Stop Stopwatch (Some ''lap'') (timer_of 0 (Some ''Work''))
                               (world_of [50000000, 60000000]) of
                          (r, s1, w1) \<Rightarrow> Start Stopwatch Start_default s1 w1))) cout
       = ''Work: lap 50mS'' @ endl @ ''Work: start'' @ endl"
  by (simp add: Start_eq Stop_eq eval_defs put_ulong.simps)

text \<open>
  Claim C2, amended. On a Running timer, \<open>Start(e)\<close> is \<open>Stop(e)\<close> followed by a
  \<open>Start\<close> with an empty or absent event name: the same return value (the lap that the stop
  records), the same output (the stop-style line for \<open>e\<close>) and the same final state, with
  the mark at the reading that follows the one the stop measures with. Followed by
  \<open>Start()\<close> with its default name instead, the sequence differs in one thing only: on a
  timer whose label is not suppressed it also writes \<open><activity>: start\<close>.
\<close>

theorem C2_restart:
  fixes s :: "'w::len word basic_stopwatch"
  assumes "IsStarted s" and "\<not> nonempty e0"
  shows "Start p e s w = (case Stop p e s w of (r, s1, w1) \<Rightarrow> Start p e0 s1 w1)
       \<and> fst (Start p e s w) = fst (Stop p e s w)
       \<and> streams (snd (snd (Start p e s w))) = streams (snd (snd (Stop p e s w)))
       \<and> m_start (fst (snd (Start p e s w))) = reading (tick w)
       \<and> (case Stop p e s w of (r, s1, w1) \<Rightarrow> Start p Start_default s1 w1) =
           (case Start p e s w of
              (r, s', w') \<Rightarrow>
                (r, s',
                 if m_activity s \<noteq> None
                 then put (m_log s) (c_str (m_activity s) @ '': start'' @ endl) w'
                 else w'))"
proof -
  have c1: "Start p e s w = (case Stop p e s w of (r, s1, w1) \<Rightarrow> Start p e0 s1 w1)"
    using assms
    by (simp add: Start_eq [of p e s w] Stop_eq [of p e s w]
          Start_stopped [OF cleared_not_started] tick_def reading_def put_def)
  have c2: "fst (Start p e s w) = fst (Stop p e s w)"
    using assms(1) by (simp add: Start_eq Stop_eq)
  have c3: "streams (snd (snd (Start p e s w))) = streams (snd (snd (Stop p e s w)))"
    using assms(1) by (simp add: Start_eq Stop_eq tick_def put_def)
  have c4: "m_start (fst (snd (Start p e s w))) = reading (tick w)"
    using assms(1) by (simp add: Start_eq)
  have c5: "(case Stop p e s w of (r, s1, w1) \<Rightarrow> Start p Start_default s1 w1) =
           (case Start p e s w of
              (r, s', w') \<Rightarrow>
                (r, s',
                 if m_activity s \<noteq> None
                 then put (m_log s) (c_str (m_activity s) @ '': start'' @ endl) w'
                 else w'))"
    using assms(1)
    by (simp add: Start_eq [of p e s w] Stop_eq [of p e s w]
          Start_stopped [OF cleared_not_started] Start_default_def tick_def reading_def put_def)
  show ?thesis
    by (intro conjI) (rule c1 c2 c3 c4 c5)+
qed

theorem C2_restart_witness:
  "IsStarted (timer_of 0 (Some ''Work'')) \<and> \<not> nonempty None
   \<and> Start Stopwatch (Some ''lap'') (timer_of 0 (Some ''Work'')) (world_of [50000000, 60000000])
      = (case Stop Stopwatch (Some ''lap'') (timer_of 0 (Some ''Work''))
                (world_of [50000000, 60000000]) of
           (r, s1, w1) \<Rightarrow> Start Stopwatch None s1 w1)
   \<and> fst (Start Stopwatch (Some ''lap'') (timer_of 0 (Some ''Work''))
        (world_of [50000000, 60000000])) = 50"
proof -
  have h1: "IsStarted (timer_of 0 (Some ''Work''))" by (simp add: eval_defs)
  have h2: "\<not> nonempty None" by simp
  have v: "fst (Stop Stopwatch (Some ''lap'') (timer_of 0 (Some ''Work''))
        (world_of [50000000, 60000000])) = 50"
    by (simp add: Stop_eq eval_defs)
  note t = C2_restart [OF h1 h2, of Stopwatch "Some ''lap''" "world_of [50000000, 60000000]"]
  have a: "Start Stopwatch (Some ''lap'') (timer_of 0 (Some ''Work''))
             (world_of [50000000, 60000000])
      = (case Stop Stopwatch (Some ''lap'') (timer_of 0 (Some ''Work''))
                (world_of [50000000, 60000000]) of
           (r, s1, w1) \<Rightarrow> Start Stopwatch None s1 w1)"
    by (rule t [THEN conjunct1])
  have b: "fst (Start Stopwatch (Some ''lap'') (timer_of 0 (Some ''Work''))
        (world_of [50000000, 60000000])) = 50"
    using t [THEN conjunct2, THEN conjunct1] v by (rule trans)
  show ?thesis
    by (intro conjI) (rule h1 h2 a b)+
qed

section \<open>The lines that report a duration\<close>

text \<open>\<open>put_ulong\<close> writes a non-empty string of decimal digits that denotes its argument.\<close>

lemma digit_value_nth:
  assumes "k < 10"
  shows "digit_value (''0123456789'' ! k) = k"
proof -
  have "k \<in> {0, 1, 2, 3, 4, 5, 6, 7, 8, 9}" using assms by auto
  then show ?thesis by (auto simp add: digit_value_def)
qed

lemma digit_nth_in:
  assumes "k < 10"
  shows "''0123456789'' ! k \<in> set ''0123456789''"
  using assms by (intro nth_mem) simp

lemma decimal_value_snoc:
  "decimal_value (cs @ [c]) = 10 * decimal_value cs + digit_value c"
  by (simp add: decimal_value_def)

lemma put_ulong_nonempty: "put_ulong n \<noteq> []"
  by (subst put_ulong.simps) simp

lemma put_ulong_digits: "set (put_ulong n) \<subseteq> set ''0123456789''"
proof (induction n rule: put_ulong.induct)
  case (1 n)
  show ?case
  proof (cases "n < 10")
    case True
    then show ?thesis
      using digit_nth_in [of n] by (subst put_ulong.simps) simp
  next
    case False
    have "n mod 10 < 10" by simp
    then have "''0123456789'' ! (n mod 10) \<in> set ''0123456789''"
      by (rule digit_nth_in)
    then show ?thesis
      using False "1.IH" by (subst put_ulong.simps) simp
  qed
qed

lemma put_ulong_value: "decimal_value (put_ulong n) = n"
proof (induction n rule: put_ulong.induct)
  case (1 n)
  show ?case
  proof (cases "n < 10")
    case True
    then show ?thesis
      by (subst put_ulong.simps) (simp add: decimal_value_def digit_value_nth)
  next
    case False
    have "digit_value (''0123456789'' ! (n mod 10)) = n mod 10"
      by (rule digit_value_nth) simp
    then show ?thesis
      using False "1.IH" by (subst put_ulong.simps) (simp add: decimal_value_snoc)
  qed
qed

text \<open>
  Claim C4, as stated, fails: the unit is not taken from the clock policy. The timer writes
  the literal \<open>mS\<close> itself, so the microsecond policy reports 50 microseconds with the
  same suffix as the millisecond policy reports 50 milliseconds.
\<close>

theorem C4_counterexample:
  "streams (snd (snd (Stop Stopwatchmicro (Some ''done'') (timer_of 0 (Some ''Work''))
      (world_of [50000])))) cout = ''Work: done 50mS'' @ endl
   \<and> streams (snd (snd (Stop Stopwatch (Some ''done'') (timer_of 0 (Some ''Work''))
      (world_of [50000000])))) cout = ''Work: done 50mS'' @ endl"
  by (simp add: Stop_eq eval_defs put_ulong.simps)

text \<open>
  Claim C4, amended. Every line that reports a duration (from \<open>Show\<close>, \<open>Stop\<close> and
  \<open>Start\<close> on a Running timer, and from the destructor) ends with the tick count and the
  literal \<open>mS\<close>, whatever the clock policy. The tick count is written as an integer: the
  text is what the stream's \<open>operator<<(unsigned long)\<close> writes for the value that the
  call returns, whatever the stream's flags. On a stream in its default state that text
  is a non-empty string of decimal digits and nothing else, which denotes the value.
\<close>

theorem C4_unit_literal:
  fixes s :: "'w::len word basic_stopwatch"
  assumes "IsStarted s" and "nonempty e" and "m_activity s = Some a"
  shows "streams (snd (snd (Show p e s w))) (m_log s) =
           streams w (m_log s) @ a @ '': '' @ c_str e @ '' at ''
             @ num_put w (m_log s) (unat (fst (Show p e s w))) @ ''mS'' @ endl
       \<and> streams (snd (snd (Stop p e s w))) (m_log s) =
           streams w (m_log s) @ a @ '': '' @ c_str e @ '' ''
             @ num_put w (m_log s) (unat (fst (Stop p e s w))) @ ''mS'' @ endl
       \<and> streams (snd (snd (Start p e s w))) (m_log s) =
           streams w (m_log s) @ a @ '': '' @ c_str e @ '' ''
             @ num_put w (m_log s) (unat (fst (Start p e s w))) @ ''mS'' @ endl
       \<and> streams (destroy p s w) (m_log s) =
           streams w (m_log s) @ a @ '': stop ''
             @ num_put w (m_log s) (unat (elapsed p s w :: 'w word)) @ ''mS'' @ endl
       \<and> (num_put w (m_log s) = put_ulong \<longrightarrow>
            (\<exists>ds. streams (snd (snd (Show p e s w))) (m_log s) =
                    streams w (m_log s) @ a @ '': '' @ c_str e @ '' at '' @ ds @ ''mS'' @ endl
                  \<and> ds \<noteq> [] \<and> set ds \<subseteq> set ''0123456789''
                  \<and> decimal_value ds = unat (fst (Show p e s w))))
       \<and> (num_put w (m_log s) = put_ulong \<longrightarrow>
            (\<exists>ds. streams (snd (snd (Stop p e s w))) (m_log s) =
                    streams w (m_log s) @ a @ '': '' @ c_str e @ '' '' @ ds @ ''mS'' @ endl
                  \<and> ds \<noteq> [] \<and> set ds \<subseteq> set ''0123456789''
                  \<and> decimal_value ds = unat (fst (Stop p e s w))))"
proof -
  have c1: "streams (snd (snd (Show p e s w))) (m_log s) =
           streams w (m_log s) @ a @ '': '' @ c_str e @ '' at ''
             @ num_put w (m_log s) (unat (fst (Show p e s w))) @ ''mS'' @ endl"
    using assms by (simp add: Show_eq put_def tick_def)
  have c2: "streams (snd (snd (Stop p e s w))) (m_log s) =
           streams w (m_log s) @ a @ '': '' @ c_str e @ '' ''
             @ num_put w (m_log s) (unat (fst (Stop p e s w))) @ ''mS'' @ endl"
    using assms by (simp add: Stop_eq put_def tick_def)
  have c3: "streams (snd (snd (Start p e s w))) (m_log s) =
           streams w (m_log s) @ a @ '': '' @ c_str e @ '' ''
             @ num_put w (m_log s) (unat (fst (Start p e s w))) @ ''mS'' @ endl"
    using assms by (simp add: Start_eq put_def tick_def)
  have c4: "streams (destroy p s w) (m_log s) =
           streams w (m_log s) @ a @ '': stop ''
             @ num_put w (m_log s) (unat (elapsed p s w :: 'w word)) @ ''mS'' @ endl"
    using assms by (simp add: destroy_def Stop_eq Stop_default_def put_def tick_def)
  have c5: "num_put w (m_log s) = put_ulong \<longrightarrow>
            (\<exists>ds. streams (snd (snd (Show p e s w))) (m_log s) =
                    streams w (m_log s) @ a @ '': '' @ c_str e @ '' at '' @ ds @ ''mS'' @ endl
                  \<and> ds \<noteq> [] \<and> set ds \<subseteq> set ''0123456789''
                  \<and> decimal_value ds = unat (fst (Show p e s w)))"
  proof
    assume df: "num_put w (m_log s) = put_ulong"
    show "\<exists>ds. streams (snd (snd (Show p e s w))) (m_log s) =
                    streams w (m_log s) @ a @ '': '' @ c_str e @ '' at '' @ ds @ ''mS'' @ endl
                  \<and> ds \<noteq> [] \<and> set ds \<subseteq> set ''0123456789''
                  \<and> decimal_value ds = unat (fst (Show p e s w))"
    proof (rule exI [where x = "put_ulong (unat (fst (Show p e s w)))"], intro conjI)
      show "streams (snd (snd (Show p e s w))) (m_log s) =
              streams w (m_log s) @ a @ '': '' @ c_str e @ '' at ''
                @ put_ulong (unat (fst (Show p e s w))) @ ''mS'' @ endl"
        using c1 unfolding df .
    qed (rule put_ulong_nonempty put_ulong_digits put_ulong_value)+
  qed
  have c6: "num_put w (m_log s) = put_ulong \<longrightarrow>
            (\<exists>ds. streams (snd (snd (Stop p e s w))) (m_log s) =
                    streams w (m_log s) @ a @ '': '' @ c_str e @ '' '' @ ds @ ''mS'' @ endl
                  \<and> ds \<noteq> [] \<and> set ds \<subseteq> set ''0123456789''
                  \<and> decimal_value ds = unat (fst (Stop p e s w)))"
  proof
    assume df: "num_put w (m_log s) = put_ulong"
    show "\<exists>ds. streams (snd (snd (Stop p e s w))) (m_log s) =
                    streams w (m_log s) @ a @ '': '' @ c_str e @ '' '' @ ds @ ''mS'' @ endl
                  \<and> ds \<noteq> [] \<and> set ds \<subseteq> set ''0123456789''
                  \<and> decimal_value ds = unat (fst (Stop p e s w))"
    proof (rule exI [where x = "put_ulong (unat (fst (Stop p e s w)))"], intro conjI)
      show "streams (snd (snd (Stop p e s w))) (m_log s) =
              streams w (m_log s) @ a @ '': '' @ c_str e @ '' ''
                @ put_ulong (unat (fst (Stop p e s w))) @ ''mS'' @ endl"
        using c2 unfolding df .
    qed (rule put_ulong_nonempty put_ulong_digits put_ulong_value)+
  qed
  show ?thesis
    by (intro conjI) (rule c1 c2 c3 c4 c5 c6)+
qed

text \<open>
  The theorem at two inputs, both with the microsecond policy and 50 microseconds elapsed:
  \<open>Show\<close> on a stream in its default state, and \<open>Stop\<close> on a stream after \<open>std::hex\<close>.
\<close>

theorem C4_unit_literal_witness:
  "IsStarted (timer_of 0 (Some ''Work'')) \<and> nonempty (Some ''cp'')
   \<and> m_activity (timer_of 0 (Some ''Work'')) = Some ''Work''
   \<and> num_put (world_of [50000]) (m_log (timer_of 0 (Some ''Work''))) = put_ulong
   \<and> streams (snd (snd (Show Stopwatchmicro (Some ''cp'') (timer_of 0 (Some ''Work''))
        (world_of [50000])))) cout = ''Work: cp at 50mS'' @ endl
   \<and> (\<exists>ds. streams (snd (snd (Show Stopwatchmicro (Some ''cp'') (timer_of 0 (Some ''Work''))
               (world_of [50000])))) (m_log (timer_of 0 (Some ''Work'')))
             = streams (world_of [50000]) (m_log (timer_of 0 (Some ''Work''))) @ ''Work''
                 @ '': '' @ c_str (Some ''cp'') @ '' at '' @ ds @ ''mS'' @ endl
           \<and> ds \<noteq> [] \<and> set ds \<subseteq> set ''0123456789''
           \<and> decimal_value ds = unat (fst (Show Stopwatchmicro (Some ''cp'')
                 (timer_of 0 (Some ''Work'')) (world_of [50000]))))
   \<and> streams (snd (snd (Stop Stopwatchmicro (Some ''cp'') (timer_of 0 (Some ''Work''))
        ((world_of [50000])\<lparr>num_put := (\<lambda>k. put_ulong_hex)\<rparr>)))) cout
       = ''Work: cp 32mS'' @ endl"
proof -
  let ?s = "timer_of 0 (Some ''Work'')"
  let ?w = "world_of [50000]"
  let ?wx = "(world_of [50000])\<lparr>num_put := (\<lambda>k. put_ulong_hex)\<rparr>"
  have h1: "IsStarted ?s" by (simp add: eval_defs)
  have h2: "nonempty (Some ''cp'')" by simp
  have h3: "m_activity ?s = Some ''Work''" by (simp add: timer_of_def)
  have h4: "num_put ?w (m_log ?s) = put_ulong" by (simp add: world_of_def)
  have v: "fst (Show Stopwatchmicro (Some ''cp'') ?s ?w) = 50"
    by (simp add: Show_eq eval_defs)
  have vx: "fst (Stop Stopwatchmicro (Some ''cp'') ?s ?wx) = 50"
    by (simp add: Stop_eq eval_defs)
  note t = C4_unit_literal [OF h1 h2 h3, of Stopwatchmicro ?w, THEN conjunct1]
  have line: "streams (snd (snd (Show Stopwatchmicro (Some ''cp'') ?s ?w))) cout
                = ''Work: cp at 50mS'' @ endl"
    using t unfolding v
    by (simp add: put_ulong.simps timer_of_def world_of_def endl_def cout_def)
  note tx = C4_unit_literal [OF h1 h2 h3, of Stopwatchmicro ?wx,
      THEN conjunct2, THEN conjunct1]
  have linex: "streams (snd (snd (Stop Stopwatchmicro (Some ''cp'') ?s ?wx))) cout
                = ''Work: cp 32mS'' @ endl"
    using tx unfolding vx
    by (simp add: put_ulong_hex.simps timer_of_def world_of_def endl_def cout_def)
  note digits = C4_unit_literal [OF h1 h2 h3, of Stopwatchmicro ?w, THEN conjunct2,
      THEN conjunct2, THEN conjunct2, THEN conjunct2, THEN conjunct1, THEN mp, OF h4]
  show ?thesis
    by (intro conjI) (rule h1 h2 h3 h4 line digits linex)+
qed

section \<open>A timer without a label\<close>

text \<open>
  The calls of a client keep the timing of two timers the same, and a timer whose label is
  suppressed writes nothing.
\<close>

lemma same_timing_elapsed:
  "same_timing s w s' w' \<Longrightarrow> (elapsed p s w :: 'w::len word) = elapsed p s' w'"
  by (simp add: same_timing_def elapsed_def reading_def)

lemma same_timing_IsStarted:
  "same_timing s w s' w' \<Longrightarrow> IsStarted s = IsStarted s'"
  by (simp add: same_timing_def IsStarted_def TimerBaseChrono_IsStarted_def)

lemma do_call_same_timing:
  fixes s s' :: "'w::len word basic_stopwatch"
  assumes "same_timing s w s' w'"
  shows "fst (do_call p c s w) = fst (do_call p c s' w')
       \<and> same_timing (fst (snd (do_call p c s w))) (snd (snd (do_call p c s w)))
            (fst (snd (do_call p c s' w'))) (snd (snd (do_call p c s' w')))"
proof -
  have el: "(elapsed p s w :: 'w word) = elapsed p s' w'"
    using assms by (rule same_timing_elapsed)
  have st: "IsStarted s = IsStarted s'"
    using assms by (rule same_timing_IsStarted)
  show ?thesis
  proof (cases c)
    case (Call_Show e)
    then show ?thesis
      using assms by (simp add: Show_eq el st same_timing_def tick_def put_def)
  next
    case (Call_Start e)
    then show ?thesis
      using assms by (simp add: Start_eq el st same_timing_def tick_def put_def reading_def)
  next
    case (Call_Stop e)
    then show ?thesis
      using assms by (simp add: Stop_eq el st same_timing_def tick_def put_def)
  qed
qed

lemma do_calls_same_timing:
  fixes s s' :: "'w::len word basic_stopwatch"
  assumes "same_timing s w s' w'"
  shows "fst (do_calls p cs s w) = fst (do_calls p cs s' w')
       \<and> same_timing (fst (snd (do_calls p cs s w))) (snd (snd (do_calls p cs s w)))
            (fst (snd (do_calls p cs s' w'))) (snd (snd (do_calls p cs s' w')))"
  using assms
proof (induction cs arbitrary: s w s' w')
  case Nil
  then show ?case by simp
next
  case (Cons c cs)
  note step = do_call_same_timing [OF Cons.prems, of p c]
  note rest = Cons.IH [OF step [THEN conjunct2]]
  show ?case
    using step rest by (simp add: case_prod_beta)
qed

lemma do_call_suppressed:
  fixes s :: "'w::len word basic_stopwatch"
  assumes "m_activity s = None"
  shows "streams (snd (snd (do_call p c s w))) = streams w
       \<and> m_activity (fst (snd (do_call p c s w))) = None"
  using assms
  by (cases c) (simp_all add: Show_eq Stop_eq Start_eq tick_def)

lemma do_calls_suppressed:
  fixes s :: "'w::len word basic_stopwatch"
  assumes "m_activity s = None"
  shows "streams (snd (snd (do_calls p cs s w))) = streams w
       \<and> m_activity (fst (snd (do_calls p cs s w))) = None"
  using assms
proof (induction cs arbitrary: s w)
  case Nil
  then show ?case by simp
next
  case (Cons c cs)
  note step = do_call_suppressed [OF Cons.prems, of p c w]
  note rest = Cons.IH [OF step [THEN conjunct2], of "snd (snd (do_call p c s w))"]
  show ?case
    using step rest by (simp add: case_prod_beta)
qed

lemma destroy_suppressed:
  fixes s :: "'w::len word basic_stopwatch"
  assumes "m_activity s = None"
  shows "streams (destroy p s w) = streams w"
  using assms by (simp add: destroy_def Stop_eq tick_def)

lemma ctor_body_eq:
  fixes s :: "'w::len word basic_stopwatch"
  assumes "\<not> IsStarted s"
  shows "ctor_body p start_now s w =
           (if start_now
            then (s\<lparr>m_start := reading w\<rparr>,
                  tick (if m_activity s \<noteq> None
                        then put (m_log s) (c_str (m_activity s) @ '': start'' @ endl) w
                        else w))
            else (s, w))"
  using assms by (simp add: ctor_body_def Start_stopped Start_default_def)

lemma ctor_not_started:
  "\<not> IsStarted (\<lparr>m_start = time_point_min, m_activity = a, m_lap = 0, m_log = log\<rparr>
       :: 'w::len word basic_stopwatch)"
  by (simp add: IsStarted_def TimerBaseChrono_IsStarted_def)

lemma ctor_suppressed:
  assumes "\<not> nonempty activity"
  shows "m_activity (fst (basic_stopwatch_log p log activity start_now w
             :: 'w::len word basic_stopwatch \<times> world)) = None
       \<and> streams (snd (basic_stopwatch_log p log activity start_now w
             :: 'w::len word basic_stopwatch \<times> world)) = streams w"
  using assms
  by (simp add: basic_stopwatch_log_def ctor_body_eq [OF ctor_not_started] normalise_def tick_def)

lemma ctor_same_timing:
  "same_timing
     (fst (basic_stopwatch_log p log activity start_now w :: 'w::len word basic_stopwatch \<times> world))
     (snd (basic_stopwatch_log p log activity start_now w :: 'w::len word basic_stopwatch \<times> world))
     (fst (basic_stopwatch_log p log' activity' start_now w :: 'w::len word basic_stopwatch \<times> world))
     (snd (basic_stopwatch_log p log' activity' start_now w :: 'w::len word basic_stopwatch \<times> world))"
  by (simp add: basic_stopwatch_log_def ctor_body_eq [OF ctor_not_started] same_timing_def
        tick_def put_def)

text \<open>
  Claim C3. A timer constructed with an empty or absent activity label writes nothing: not in
  the constructor, not in any sequence of \<open>Show\<close>, \<open>Start\<close> and \<open>Stop\<close> calls with any
  event names, and not in the destructor. The values the calls return, the lap, the mark
  and the running state are those of a timer constructed with any other label on any stream
  and given the same calls and the same clock. The constructor without a stream is the
  constructor on \<open>cout\<close>.
\<close>

theorem C3_suppressed_label:
  assumes "\<not> nonempty activity"
  shows "(case lifetime p log activity start_now cs w of
            (rs :: 'w::len word list, s1, w1, w2) \<Rightarrow>
              streams w1 = streams w \<and> streams w2 = streams w
              \<and> (case lifetime p log' activity' start_now cs w of
                    (rs', s1', w1', w2') \<Rightarrow>
                      rs = rs' \<and> LapGet s1 = LapGet s1' \<and> IsStarted s1 = IsStarted s1'
                      \<and> m_start s1 = m_start s1' \<and> now_cnt w1 = now_cnt w1'))
       \<and> (basic_stopwatch_activity p activity start_now w
             :: 'w word basic_stopwatch \<times> world)
           = basic_stopwatch_log p cout activity start_now w"
proof -
  let ?c = "basic_stopwatch_log p log activity start_now w :: 'w word basic_stopwatch \<times> world"
  let ?c' = "basic_stopwatch_log p log' activity' start_now w :: 'w word basic_stopwatch \<times> world"
  let ?r = "do_calls p cs (fst ?c) (snd ?c)"
  let ?r' = "do_calls p cs (fst ?c') (snd ?c')"
  note c = ctor_suppressed [OF assms, of p log start_now w, where 'w = 'w]
  note r = do_calls_suppressed [OF c [THEN conjunct1], of p cs "snd ?c"]
  have out1: "streams (snd (snd ?r)) = streams w"
    using r c by simp
  have out2: "streams (destroy p (fst (snd ?r)) (snd (snd ?r))) = streams w"
    using destroy_suppressed [OF r [THEN conjunct2], of p "snd (snd ?r)"] out1 by simp
  have t: "fst ?r = fst ?r'
       \<and> same_timing (fst (snd ?r)) (snd (snd ?r)) (fst (snd ?r')) (snd (snd ?r'))"
    by (rule do_calls_same_timing [OF ctor_same_timing])
  have rs: "fst ?r = fst ?r'" using t by (rule conjunct1)
  have same: "same_timing (fst (snd ?r)) (snd (snd ?r)) (fst (snd ?r')) (snd (snd ?r'))"
    using t by (rule conjunct2)
  have lap: "LapGet (fst (snd ?r)) = LapGet (fst (snd ?r'))"
    and mark: "m_start (fst (snd ?r)) = m_start (fst (snd ?r'))"
    and cnt: "now_cnt (snd (snd ?r)) = now_cnt (snd (snd ?r'))"
    using same by (simp_all add: same_timing_def LapGet_def)
  have run: "IsStarted (fst (snd ?r)) = IsStarted (fst (snd ?r'))"
    using same by (rule same_timing_IsStarted)
  have act: "(basic_stopwatch_activity p activity start_now w
             :: 'w word basic_stopwatch \<times> world)
           = basic_stopwatch_log p cout activity start_now w"
    by (simp add: basic_stopwatch_activity_def basic_stopwatch_log_def)
  show ?thesis
    using out1 out2 rs lap mark cnt run act
    by (simp add: lifetime_def case_prod_beta)
qed

theorem C3_suppressed_label_witness:
  "\<not> nonempty (Some [])
   \<and> streams (snd (snd (snd (lifetime Stopwatch cout (Some []) True
         [Call_Show (Some ''cp''), Call_Stop (Some ''done'')]
         (world_of [1000000, 51000000, 64000000])
         :: 64 word list \<times> 64 word basic_stopwatch \<times> world \<times> world))))
       = streams (world_of [1000000, 51000000, 64000000])
   \<and> fst (lifetime Stopwatch cout (Some []) True
         [Call_Show (Some ''cp''), Call_Stop (Some ''done'')]
         (world_of [1000000, 51000000, 64000000])
         :: 64 word list \<times> 64 word basic_stopwatch \<times> world \<times> world) = [50, 63]"
proof -
  have h: "\<not> nonempty (Some [])" by simp
  note t = C3_suppressed_label [where 'w = 64, OF h, where p = Stopwatch and log = cout
      and start_now = True and cs = "[Call_Show (Some ''cp''), Call_Stop (Some ''done'')]"
      and w = "world_of [1000000, 51000000, 64000000]" and log' = cout
      and activity' = "Some ''Work''", THEN conjunct1]
  have out: "streams (snd (snd (snd (lifetime Stopwatch cout (Some []) True
         [Call_Show (Some ''cp''), Call_Stop (Some ''done'')]
         (world_of [1000000, 51000000, 64000000])
         :: 64 word list \<times> 64 word basic_stopwatch \<times> world \<times> world))))
       = streams (world_of [1000000, 51000000, 64000000])"
    using t by (simp add: case_prod_beta)
  have rs: "fst (lifetime Stopwatch cout (Some []) True
         [Call_Show (Some ''cp''), Call_Stop (Some ''done'')]
         (world_of [1000000, 51000000, 64000000])
         :: 64 word list \<times> 64 word basic_stopwatch \<times> world \<times> world) = [50, 63]"
    by (simp add: lifetime_def basic_stopwatch_log_def ctor_body_def normalise_def
          Start_eq Show_eq Stop_eq eval_defs)
  show ?thesis
    by (intro conjI) (rule h out rs)+
qed

end
